theory Spec2Isabelle
  imports Main "HOL-Library.Word" "HOL-Library.Sublist"
begin

section \<open>SimpleWallet: data model\<close>

text \<open>
  The class \<open>SimpleWallet\<close> derives accounts from seed phrases, scans them for balances
  and transfers ether. Everything it does to the outside goes through the viem library
  (\<open>isAddress\<close>, \<open>mnemonicToAccount\<close>, \<open>formatEther\<close>, \<open>parseEther\<close>, the public client and
  the wallet client) and through JavaScript built-ins (\<open>parseFloat\<close>, the comparison of
  numbers, \<open>console\<close>). Those are not code of the repository: the model takes them as the
  fields of a record \<open>runtime\<close> and the theorems hold for every value of that record.

  A thrown exception is a value \<open>Inl e\<close>; the kinds of error are those of the error
  taxonomy. The two \<open>throw new Error("Insufficient balance ...")\<close> of \<open>transfer\<close> are
  \<open>InsufficientFunds\<close>, its \<open>throw new Error("Invalid recipient address ...")\<close> is
  \<open>InvalidInput\<close>, and the \<open>throw new Error("Failed to derive private key")\<close> of
  \<open>getPrivateKey\<close> is \<open>KeyUnavailable\<close>. What a library call throws is whatever the
  library returns.
\<close>

datatype error =
    InvalidSeedPhrase
  | InvalidInput
  | InsufficientFunds
  | NetworkError
  | RejectedTransaction
  | Timeout
  | KeyUnavailable

text \<open>
  The interface \<open>WalletInfo\<close> of the source; its fields \<open>address\<close>, \<open>balance\<close>,
  \<open>balanceEth\<close>, \<open>index\<close> and \<open>seedPhrase\<close> carry the prefix \<open>info_\<close> here, the
  plain names being those of the local variables of the methods.
\<close>

record WalletInfo =
  info_address :: string
  info_balance :: string
  info_balanceEth :: string
  info_index :: nat
  info_seedPhrase :: string

text \<open>
  What \<open>mnemonicToAccount\<close> returns, as far as the class reads it: the address and the
  private key of \<open>getHdKey()\<close>, which the library types as a byte array or null.
\<close>

record account =
  address :: string
  hdPrivateKey :: "8 word list option"

text \<open>What \<open>createWalletClient\<close> is given (the chain is the constant \<open>mainnet\<close>).\<close>

record walletClient =
  clientAccount :: account
  clientTransport :: string

record receipt =
  blockNumber :: int

text \<open>
  The remote calls the class makes, in the order it makes them: every call of a method of
  the public client or of the wallet client appends one entry.
\<close>

datatype call =
    GetBalance string
  | GetGasPrice
  | SendTransaction string string int
  | WaitForTransactionReceipt string

text \<open>The lines written to the console: \<open>console.log\<close> and \<open>console.error\<close>.\<close>

datatype console_line =
    LogTransactionSent string
  | LogWaitingForConfirmation
  | LogTransactionConfirmed int
  | ErrorCheckingWalletIndex nat error

text \<open>
  The state a method runs in: the remote ledger (of any type \<open>'w\<close>; each remote call
  may change it), the remote calls made so far, the console, and the store of JavaScript
  arrays of strings, an array reference being a position in the store.
\<close>

record 'w state =
  world :: 'w
  calls :: "call list"
  console :: "console_line list"
  heap :: "string list list"

text \<open>
  The library and the built-ins. \<open>'n\<close> is the type of JavaScript numbers:
  \<open>parseFloat\<close> produces them and \<open>numGt\<close> is their greater-than comparison (false
  when either side is NaN). Balances, gas prices and amounts in wei are bigints.
  \<open>sendTransaction\<close> is the method of a wallet client; its second argument is the
  \<open>account\<close> property of the request, which may be left out.
\<close>

record ('w, 'n) runtime =
  isAddress :: "string \<Rightarrow> bool"
  mnemonicToAccount :: "string \<Rightarrow> nat \<Rightarrow> error + account"
  formatEther :: "int \<Rightarrow> string"
  parseEther :: "string \<Rightarrow> error + int"
  parseFloat :: "string \<Rightarrow> 'n"
  numGt :: "'n \<Rightarrow> 'n \<Rightarrow> bool"
  getBalance :: "string \<Rightarrow> 'w \<Rightarrow> (error + int) \<times> 'w"
  getGasPrice :: "'w \<Rightarrow> (error + int) \<times> 'w"
  sendTransaction ::
    "walletClient \<Rightarrow> account option \<Rightarrow> string \<Rightarrow> int \<Rightarrow> 'w \<Rightarrow> (error + string) \<times> 'w"
  waitForTransactionReceipt :: "string \<Rightarrow> 'w \<Rightarrow> (error + receipt) \<times> 'w"

text \<open>
  The fields of a \<open>SimpleWallet\<close> object: \<open>seedPhrases\<close> is a reference to an array of
  the store; \<open>publicClient\<close> is part of the runtime. An account index is a natural
  number.
\<close>

record SimpleWallet =
  seedPhrases :: nat
  rpcUrl :: string

section \<open>Sequencing, exceptions, remote calls\<close>

text \<open>
  A method, or a part of one, takes the state and returns a value or the error thrown,
  with the new state. \<open>andThen\<close> runs the next statement when the first did not throw,
  \<open>tryCatch\<close> runs the handler when the block threw, \<open>orThrow\<close> is a call of a library
  function that has no effect but may throw, and \<open>remote\<close> is a call of a method of a
  client: it is entered in the list of calls and the ledger answers it.
\<close>

type_synonym ('w, 'a) prog = "'w state \<Rightarrow> (error + 'a) \<times> 'w state"

definition ret :: "'a \<Rightarrow> ('w, 'a) prog" where
  "ret x = (\<lambda>s. (Inr x, s))"

definition raise :: "error \<Rightarrow> ('w, 'a) prog" where
  "raise e = (\<lambda>s. (Inl e, s))"

definition andThen :: "('w, 'a) prog \<Rightarrow> ('a \<Rightarrow> ('w, 'b) prog) \<Rightarrow> ('w, 'b) prog" where
  "andThen m f = (\<lambda>s. case m s of (Inl e, s') \<Rightarrow> (Inl e, s') | (Inr x, s') \<Rightarrow> f x s')"

definition tryCatch :: "('w, 'a) prog \<Rightarrow> (error \<Rightarrow> ('w, 'a) prog) \<Rightarrow> ('w, 'a) prog" where
  "tryCatch m h = (\<lambda>s. case m s of (Inl e, s') \<Rightarrow> h e s' | (Inr x, s') \<Rightarrow> (Inr x, s'))"

definition orThrow :: "error + 'a \<Rightarrow> ('w, 'a) prog" where
  "orThrow r = (\<lambda>s. (r, s))"

definition remote :: "call \<Rightarrow> ('w \<Rightarrow> (error + 'a) \<times> 'w) \<Rightarrow> ('w, 'a) prog" where
  "remote c f = (\<lambda>s. case f (world s) of
      (r, w') \<Rightarrow> (r, s\<lparr>world := w', calls := calls s @ [c]\<rparr>))"

definition console_log :: "console_line \<Rightarrow> ('w, unit) prog" where
  "console_log l = (\<lambda>s. (Inr (), s\<lparr>console := console s @ [l]\<rparr>))"

definition console_error :: "console_line \<Rightarrow> ('w, unit) prog" where
  "console_error l = (\<lambda>s. (Inr (), s\<lparr>console := console s @ [l]\<rparr>))"

section \<open>The methods of SimpleWallet\<close>

definition getAccountFromSeed :: "('w, 'n) runtime \<Rightarrow> string \<Rightarrow> nat \<Rightarrow> ('w, account) prog" where
  "getAccountFromSeed R seedPhrase i = orThrow (mnemonicToAccount R seedPhrase i)"

definition createWalletClient :: "account \<Rightarrow> string \<Rightarrow> walletClient" where
  "createWalletClient a url = \<lparr>clientAccount = a, clientTransport = url\<rparr>"

definition estimatedGas :: int where
  "estimatedGas = 21000"

definition transfer ::
  "('w, 'n) runtime \<Rightarrow> SimpleWallet \<Rightarrow> string \<Rightarrow> nat \<Rightarrow> string \<Rightarrow> string \<Rightarrow> ('w, string) prog" where
  "transfer R this seedPhrase walletIndex toAddress amountEth =
    (if \<not> isAddress R toAddress then raise InvalidInput
     else
       andThen (getAccountFromSeed R seedPhrase walletIndex) (\<lambda>account.
       andThen (remote (GetBalance (address account)) (getBalance R (address account))) (\<lambda>balance.
         let balanceEth = parseFloat R (formatEther R balance);
             amount = parseFloat R amountEth
         in
         if numGt R amount balanceEth then raise InsufficientFunds
         else
           andThen (remote GetGasPrice (getGasPrice R)) (\<lambda>gasPrice.
             let gasCost = estimatedGas * gasPrice in
             andThen (orThrow (parseEther R amountEth)) (\<lambda>parsed.
               let totalNeeded = parsed + gasCost in
               if totalNeeded > balance then raise InsufficientFunds
               else
                 let walletClient = createWalletClient account (rpcUrl this) in
                 andThen (orThrow (parseEther R amountEth)) (\<lambda>txValue.
                 andThen (remote (SendTransaction (address account) toAddress txValue)
                            (sendTransaction R walletClient (Some account) toAddress txValue)) (\<lambda>hash.
                 andThen (console_log (LogTransactionSent hash)) (\<lambda>_.
                 andThen (console_log LogWaitingForConfirmation) (\<lambda>_.
                 andThen (remote (WaitForTransactionReceipt hash)
                            (waitForTransactionReceipt R hash)) (\<lambda>receipt.
                 andThen (console_log (LogTransactionConfirmed (blockNumber receipt))) (\<lambda>_.
                 ret hash)))))))))))"

text \<open>
  \<open>transfer\<close> as the file \<open>index.ts\<close> has it: the wallet client is built before the
  gas price is read, and the request of \<open>sendTransaction\<close> names no account.
\<close>

definition transfer_index_ts ::
  "('w, 'n) runtime \<Rightarrow> SimpleWallet \<Rightarrow> string \<Rightarrow> nat \<Rightarrow> string \<Rightarrow> string \<Rightarrow> ('w, string) prog" where
  "transfer_index_ts R this seedPhrase walletIndex toAddress amountEth =
    (if \<not> isAddress R toAddress then raise InvalidInput
     else
       andThen (getAccountFromSeed R seedPhrase walletIndex) (\<lambda>account.
       andThen (remote (GetBalance (address account)) (getBalance R (address account))) (\<lambda>balance.
         let balanceEth = parseFloat R (formatEther R balance);
             amount = parseFloat R amountEth
         in
         if numGt R amount balanceEth then raise InsufficientFunds
         else
           let walletClient = createWalletClient account (rpcUrl this) in
           andThen (remote GetGasPrice (getGasPrice R)) (\<lambda>gasPrice.
             let gasCost = estimatedGas * gasPrice in
             andThen (orThrow (parseEther R amountEth)) (\<lambda>parsed.
               let totalNeeded = parsed + gasCost in
               if totalNeeded > balance then raise InsufficientFunds
               else
                 andThen (orThrow (parseEther R amountEth)) (\<lambda>txValue.
                 andThen (remote (SendTransaction (address account) toAddress txValue)
                            (sendTransaction R walletClient None toAddress txValue)) (\<lambda>hash.
                 andThen (console_log (LogTransactionSent hash)) (\<lambda>_.
                 andThen (console_log LogWaitingForConfirmation) (\<lambda>_.
                 andThen (remote (WaitForTransactionReceipt hash)
                            (waitForTransactionReceipt R hash)) (\<lambda>receipt.
                 andThen (console_log (LogTransactionConfirmed (blockNumber receipt))) (\<lambda>_.
                 ret hash)))))))))))"

definition getWalletAddress ::
  "('w, 'n) runtime \<Rightarrow> SimpleWallet \<Rightarrow> string \<Rightarrow> nat option \<Rightarrow> ('w, string) prog" where
  "getWalletAddress R this seedPhrase indexArg =
    (let i = (case indexArg of None \<Rightarrow> 0 | Some n \<Rightarrow> n) in
     andThen (getAccountFromSeed R seedPhrase i) (\<lambda>account. ret (address account)))"

text \<open>\<open>Buffer.toString("hex")\<close>: two lower-case hexadecimal digits for each byte.\<close>

definition hexDigit :: "nat \<Rightarrow> char" where
  "hexDigit n = ''0123456789abcdef'' ! (n mod 16)"

definition toHex :: "8 word list \<Rightarrow> string" where
  "toHex bs = concat (map (\<lambda>b. [hexDigit (unat b div 16), hexDigit (unat b mod 16)]) bs)"

definition getPrivateKey ::
  "('w, 'n) runtime \<Rightarrow> SimpleWallet \<Rightarrow> string \<Rightarrow> nat option \<Rightarrow> ('w, string) prog" where
  "getPrivateKey R this seedPhrase indexArg =
    (let i = (case indexArg of None \<Rightarrow> 0 | Some n \<Rightarrow> n) in
     andThen (getAccountFromSeed R seedPhrase i) (\<lambda>account.
       case hdPrivateKey account of
         None \<Rightarrow> raise KeyUnavailable
       | Some privateKeyBuffer \<Rightarrow> ret (''0x'' @ toHex privateKeyBuffer)))"

text \<open>
  \<open>getSeedPhrases\<close> returns \<open>[...this.seedPhrases]\<close>: a new array, holding the elements of
  the wallet's array. The new array takes the next free position of the store.
\<close>

definition getSeedPhrases :: "SimpleWallet \<Rightarrow> ('w, nat) prog" where
  "getSeedPhrases this =
    (\<lambda>s. (Inr (length (heap s)), s\<lparr>heap := heap s @ [heap s ! seedPhrases this]\<rparr>))"

text \<open>
  Any change a caller makes to the array behind a reference (an assignment to an element,
  \<open>push\<close>, \<open>pop\<close>, \<open>splice\<close>, \<open>length = 0\<close>, ...) replaces the content of that
  position of the store and of no other.
\<close>

definition mutateArray :: "nat \<Rightarrow> (string list \<Rightarrow> string list) \<Rightarrow> 'w state \<Rightarrow> 'w state" where
  "mutateArray r f s = (if r < length (heap s) then s\<lparr>heap := (heap s)[r := f (heap s ! r)]\<rparr> else s)"

subsection \<open>listWalletsWithBalance\<close>

text \<open>\<open>String.prototype.split\<close> with a one-character separator, and \<open>Array.prototype.join\<close>.\<close>

fun splitOn :: "char \<Rightarrow> string \<Rightarrow> string list" where
  "splitOn c [] = [[]]"
| "splitOn c (x # xs) =
     (if x = c then [] # splitOn c xs
      else (case splitOn c xs of [] \<Rightarrow> [[x]] | w # ws \<Rightarrow> (x # w) # ws))"

fun joinWith :: "string \<Rightarrow> string list \<Rightarrow> string" where
  "joinWith sep [] = []"
| "joinWith sep [w] = w"
| "joinWith sep (w # ws) = w @ sep @ joinWith sep ws"

text \<open>\<open>BigInt.prototype.toString\<close>: decimal digits, with a minus sign when negative.\<close>

fun natToString :: "nat \<Rightarrow> string" where
  "natToString n =
     (if n < 10 then [''0123456789'' ! n]
      else natToString (n div 10) @ [''0123456789'' ! (n mod 10)])"

definition bigintToString :: "int \<Rightarrow> string" where
  "bigintToString i = (if i < 0 then ''-'' @ natToString (nat (- i)) else natToString (nat i))"

text \<open>
  One turn of the inner loop: the \<open>try\<close> block and its \<open>catch\<close>. The array
  \<open>walletsWithBalance\<close> is local to the method; the turn returns it, with the new entry
  pushed at its end when the balance is positive.
\<close>

definition scanEntry ::
  "('w, 'n) runtime \<Rightarrow> string \<Rightarrow> nat \<Rightarrow> WalletInfo list \<Rightarrow> ('w, WalletInfo list) prog" where
  "scanEntry R seedPhrase i walletsWithBalance =
    tryCatch
      (andThen (getAccountFromSeed R seedPhrase i) (\<lambda>account.
       andThen (remote (GetBalance (address account)) (getBalance R (address account))) (\<lambda>balance.
         let balanceEth = formatEther R balance in
         if balance > 0 then
           ret (walletsWithBalance @
             [\<lparr>info_address = address account,
               info_balance = bigintToString balance,
               info_balanceEth = balanceEth,
               info_index = i,
               info_seedPhrase = joinWith '' '' (take 3 (splitOn CHR '' '' seedPhrase)) @ ''...''\<rparr>])
         else ret walletsWithBalance)))
      (\<lambda>error.
         andThen (console_error (ErrorCheckingWalletIndex i error)) (\<lambda>_. ret walletsWithBalance))"

text \<open>\<open>for (let i = 0; i < maxIndex; i++)\<close>, from the current \<open>i\<close> on.\<close>

function indexLoop ::
  "('w, 'n) runtime \<Rightarrow> string \<Rightarrow> nat \<Rightarrow> nat \<Rightarrow> WalletInfo list \<Rightarrow> ('w, WalletInfo list) prog" where
  "indexLoop R seedPhrase maxIndex i walletsWithBalance s =
    (if i < maxIndex then
       (case scanEntry R seedPhrase i walletsWithBalance s of
          (Inl e, s') \<Rightarrow> (Inl e, s')
        | (Inr walletsWithBalance', s') \<Rightarrow> indexLoop R seedPhrase maxIndex (Suc i) walletsWithBalance' s')
     else (Inr walletsWithBalance, s))"
  by pat_completeness auto
termination
  by (relation "measure (\<lambda>(R, seedPhrase, maxIndex, i, ws, s). maxIndex - i)") auto

text \<open>\<open>for (const seedPhrase of this.seedPhrases)\<close>.\<close>

fun phraseLoop ::
  "('w, 'n) runtime \<Rightarrow> string list \<Rightarrow> nat \<Rightarrow> WalletInfo list \<Rightarrow> ('w, WalletInfo list) prog" where
  "phraseLoop R [] maxIndex walletsWithBalance s = (Inr walletsWithBalance, s)"
| "phraseLoop R (seedPhrase # rest) maxIndex walletsWithBalance s =
    (case indexLoop R seedPhrase maxIndex 0 walletsWithBalance s of
       (Inl e, s') \<Rightarrow> (Inl e, s')
     | (Inr walletsWithBalance', s') \<Rightarrow> phraseLoop R rest maxIndex walletsWithBalance' s')"

definition listWalletsWithBalance ::
  "('w, 'n) runtime \<Rightarrow> SimpleWallet \<Rightarrow> nat option \<Rightarrow> ('w, WalletInfo list) prog" where
  "listWalletsWithBalance R this maxIndexArg =
    (let maxIndex = (case maxIndexArg of None \<Rightarrow> 20 | Some m \<Rightarrow> m) in
     (\<lambda>s. phraseLoop R (heap s ! seedPhrases this) maxIndex [] s))"

subsection \<open>What one scan observes\<close>

text \<open>
  The derivation and the balance query that the \<open>try\<close> block of one turn makes, with
  their result: the account and the balance, or the error thrown.
\<close>

definition queryBalance ::
  "('w, 'n) runtime \<Rightarrow> string \<Rightarrow> nat \<Rightarrow> ('w, account \<times> int) prog" where
  "queryBalance R seedPhrase i =
     andThen (getAccountFromSeed R seedPhrase i) (\<lambda>account.
     andThen (remote (GetBalance (address account)) (getBalance R (address account))) (\<lambda>balance.
       ret (account, balance)))"

text \<open>
  The pairs (phrase, index) in phrase order, then index order, and the turns of the two
  loops taken one after the other over a list of pairs.
\<close>

definition enumeration :: "string list \<Rightarrow> nat \<Rightarrow> (string \<times> nat) list" where
  "enumeration phrases maxIndex = concat (map (\<lambda>p. map (\<lambda>i. (p, i)) [0..<maxIndex]) phrases)"

fun scanPairs ::
  "('w, 'n) runtime \<Rightarrow> (string \<times> nat) list \<Rightarrow> WalletInfo list \<Rightarrow> ('w, WalletInfo list) prog" where
  "scanPairs R [] ws s = (Inr ws, s)"
| "scanPairs R ((p, i) # ps) ws s =
    (case scanEntry R p i ws s of
       (Inl e, s') \<Rightarrow> (Inl e, s')
     | (Inr ws', s') \<Rightarrow> scanPairs R ps ws' s')"

text \<open>
  The state in which the turn of each pair starts, and the answer each pair's query
  gets there.
\<close>

fun turnStates :: "('w, 'n) runtime \<Rightarrow> (string \<times> nat) list \<Rightarrow> 'w state \<Rightarrow> 'w state list" where
  "turnStates R [] s = []"
| "turnStates R ((p, i) # ps) s = s # turnStates R ps (snd (scanEntry R p i [] s))"

definition answers ::
  "('w, 'n) runtime \<Rightarrow> (string \<times> nat) list \<Rightarrow> 'w state \<Rightarrow> (error + account \<times> int) list" where
  "answers R ps s = map (\<lambda>((p, i), t). fst (queryBalance R p i t)) (zip ps (turnStates R ps s))"

definition hasBalance :: "error + account \<times> int \<Rightarrow> bool" where
  "hasBalance r = (case r of Inl _ \<Rightarrow> False | Inr (_, b) \<Rightarrow> b > 0)"

text \<open>
  The entry pushed for a pair whose query was answered with a positive balance. (An
  answer that is an error pushes no entry; the value given for it here is never used.)
\<close>

definition walletInfo :: "('w, 'n) runtime \<Rightarrow> string \<times> nat \<Rightarrow> error + account \<times> int \<Rightarrow> WalletInfo" where
  "walletInfo R pr r =
     (case r of
        Inr (a, b) \<Rightarrow>
          \<lparr>info_address = address a,
           info_balance = bigintToString b,
           info_balanceEth = formatEther R b,
           info_index = snd pr,
           info_seedPhrase = joinWith '' '' (take 3 (splitOn CHR '' '' (fst pr))) @ ''...''\<rparr>
      | Inl _ \<Rightarrow>
          \<lparr>info_address = [], info_balance = [], info_balanceEth = [],
           info_index = snd pr, info_seedPhrase = []\<rparr>)"

text \<open>
  The balance queries of a list of pairs: one for each pair whose phrase and index
  derive an account, at the address of that account.
\<close>

definition balanceQueries :: "('w, 'n) runtime \<Rightarrow> (string \<times> nat) list \<Rightarrow> call list" where
  "balanceQueries R ps =
     concat (map (\<lambda>(p, i). case mnemonicToAccount R p i of
                               Inl _ \<Rightarrow> [] | Inr a \<Rightarrow> [GetBalance (address a)]) ps)"

text \<open>The lines \<open>console.error\<close> writes for the pairs whose turn threw.\<close>

definition errorLines :: "(string \<times> nat) list \<Rightarrow> (error + account \<times> int) list \<Rightarrow> console_line list" where
  "errorLines ps rs =
     concat (map (\<lambda>((p, i), r). case r of Inl e \<Rightarrow> [ErrorCheckingWalletIndex i e] | Inr _ \<Rightarrow> [])
               (zip ps rs))"

section \<open>A runtime to run the methods on\<close>

text \<open>
  A ledger with scripted answers, and library functions that agree with viem and with
  JavaScript on the strings and numbers used below. \<open>isAddress\<close> accepts the addresses
  of forty lower-case hexadecimal digits. \<open>mnemonicToAccount\<close> knows one phrase, the
  reference phrase of twelve words, with the address and the key of its first account;
  the accounts of its other indices get placeholder addresses. \<open>formatEther\<close> is the
  library's: the decimal digits, a point before the last eighteen, trailing zeros
  dropped. \<open>parseEther\<close> and \<open>parseFloat\<close> know the amounts of one, two and three
  ether and of minus one ether, which the library's \<open>parseEther\<close> accepts as it accepts
  every decimal with a leading minus sign (and \<open>parseFloat\<close> knows zero); they take
  every other string for no number.
  JavaScript numbers are \<open>Some\<close> of an integer, or \<open>None\<close> for NaN.
\<close>

record demoLedger =
  served :: nat
  offlineAt :: "nat list"
  funded :: "(string \<times> int) list"
  price :: int
  confirms :: bool
  pending :: "(string \<times> string \<times> int) list"

definition testPhrase :: string where
  "testPhrase = ''test test test test test test test test test test test junk''"

definition testAddress :: string where
  "testAddress = ''0xf39Fd6e51aad88F6F4ce6aB8827279cffFb92266''"

definition testKey :: "8 word list" where
  "testKey =
     [0xac, 0x09, 0x74, 0xbe, 0xc3, 0x9a, 0x17, 0xe3, 0x6b, 0xa4, 0xa6, 0xb4, 0xd2, 0x38, 0xff, 0x94,
      0x4b, 0xac, 0xb4, 0x78, 0xcb, 0xed, 0x5e, 0xfc, 0xae, 0x78, 0x4d, 0x7b, 0xf4, 0xf2, 0xff, 0x80]"

definition recipient :: string where
  "recipient = ''0x70997970c51812dc3a010c7d01b50e0d17dc79c8''"

definition demoAccount :: "nat \<Rightarrow> account" where
  "demoAccount i =
     (if i = 0 then \<lparr>address = testAddress, hdPrivateKey = Some testKey\<rparr>
      else \<lparr>address = ''0x00000000000000000000000000000000000000'' @ natToString (10 + i mod 90),
            hdPrivateKey = None\<rparr>)"

definition demoFormatEther :: "int \<Rightarrow> string" where
  "demoFormatEther b =
     (let digits = natToString (nat \<bar>b\<bar>);
          padded = replicate (18 - length digits) CHR ''0'' @ digits;
          whole = take (length padded - 18) padded;
          fraction = rev (dropWhile (\<lambda>c. c = CHR ''0'') (rev (drop (length padded - 18) padded)))
      in (if b < 0 then ''-'' else []) @ (if whole = [] then ''0'' else whole) @
         (if fraction = [] then [] else ''.'' @ fraction))"

definition demoRuntime :: "(demoLedger, int option) runtime" where
  "demoRuntime =
    \<lparr>isAddress = (\<lambda>a. length a = 42 \<and> take 2 a = ''0x'' \<and>
                    list_all (\<lambda>c. c \<in> set ''0123456789abcdef'') (drop 2 a)),
     mnemonicToAccount = (\<lambda>p i. if p = testPhrase then Inr (demoAccount i) else Inl InvalidSeedPhrase),
     formatEther = demoFormatEther,
     parseEther = (\<lambda>a. if a = ''1'' then Inr (10 ^ 18) else if a = ''2'' then Inr (2 * 10 ^ 18)
                        else if a = ''3'' then Inr (3 * 10 ^ 18)
                        else if a = ''-1'' then Inr (- (10 ^ 18)) else Inl InvalidInput),
     parseFloat = (\<lambda>a. if a = ''0'' then Some 0 else if a = ''1'' then Some 1
                        else if a = ''2'' then Some 2 else if a = ''3'' then Some 3
                        else if a = ''-1'' then Some (- 1) else None),
     numGt = (\<lambda>x y. case (x, y) of (Some a, Some b) \<Rightarrow> a > b | _ \<Rightarrow> False),
     getBalance = (\<lambda>a w.
        (if served w \<in> set (offlineAt w) then Inl NetworkError
         else Inr (case map_of (funded w) a of None \<Rightarrow> 0 | Some b \<Rightarrow> b),
         w\<lparr>served := Suc (served w)\<rparr>)),
     getGasPrice = (\<lambda>w. (Inr (price w), w)),
     sendTransaction = (\<lambda>c a t v w.
        (Inr ''0xfeed'',
         w\<lparr>pending := pending w @
             [(address (case a of None \<Rightarrow> clientAccount c | Some x \<Rightarrow> x), t, v)]\<rparr>)),
     waitForTransactionReceipt = (\<lambda>h w.
        (if confirms w then Inr \<lparr>blockNumber = 1\<rparr> else Inl Timeout, w))\<rparr>"

definition demoWallet :: SimpleWallet where
  "demoWallet = \<lparr>seedPhrases = 0, rpcUrl = ''http://localhost:8545''\<rparr>"

definition demoLedger0 :: demoLedger where
  "demoLedger0 =
     \<lparr>served = 0, offlineAt = [], funded = [(testAddress, 2 * 10 ^ 18)],
      price = 10 ^ 9, confirms = True, pending = []\<rparr>"

definition demoState :: "string list \<Rightarrow> demoLedger \<Rightarrow> demoLedger state" where
  "demoState phrases w = \<lparr>world = w, calls = [], console = [], heap = [phrases]\<rparr>"

definition submits :: "call list \<Rightarrow> nat" where
  "submits cs = length (filter (\<lambda>c. case c of SendTransaction _ _ _ \<Rightarrow> True | _ \<Rightarrow> False) cs)"

section \<open>Basic facts\<close>

lemmas prog_defs = ret_def raise_def andThen_def tryCatch_def orThrow_def remote_def
  console_log_def console_error_def getAccountFromSeed_def

lemmas demoFormatEther_literal =
  demoFormatEther_def [of "numeral k" for k] demoFormatEther_def [of 0]

lemmas demo_defs = demoRuntime_def demoWallet_def demoState_def demoLedger0_def demoAccount_def
  testPhrase_def testAddress_def recipient_def createWalletClient_def estimatedGas_def
  demoFormatEther_literal Let_def

declare indexLoop.simps [simp del]
declare natToString.simps [simp del]

text \<open>The decimal digits of a literal number; a number that is not a literal stays folded.\<close>

lemma natToString_numeral [simp]:
  "natToString (numeral k) =
     (if (numeral k :: nat) < 10 then [''0123456789'' ! numeral k]
      else natToString (numeral k div 10) @ [''0123456789'' ! (numeral k mod 10)])"
  by (rule natToString.simps)

lemma natToString_small [simp]:
  "natToString 0 = ''0''" "natToString 1 = ''1''" "natToString (Suc 0) = ''1''"
  by (simp_all add: natToString.simps)

lemmas scan_defs = listWalletsWithBalance_def indexLoop.simps scanEntry_def bigintToString_def

lemma submits_simps [simp]:
  "submits [] = 0"
  "submits (GetBalance a # cs) = submits cs"
  "submits (GetGasPrice # cs) = submits cs"
  "submits (SendTransaction f t v # cs) = Suc (submits cs)"
  "submits (WaitForTransactionReceipt h # cs) = submits cs"
  "submits (cs @ ds) = submits cs + submits ds"
  by (simp_all add: submits_def)

section \<open>transfer\<close>

text \<open>
  The theorems of this section are about \<open>transfer\<close> as the class has it together with
  \<open>getPrivateKey\<close> and \<open>getSeedPhrases\<close>, and they hold for every runtime. The
  \<open>transfer\<close> of \<open>index.ts\<close> is that method run on a library whose \<open>sendTransaction\<close>
  is never told the account, so each of them holds for it as well.
\<close>

lemma transfer_index_ts_eq:
  "transfer_index_ts R this seedPhrase walletIndex toAddress amountEth s =
     transfer (R\<lparr>sendTransaction := (\<lambda>c a. sendTransaction R c None)\<rparr>)
       this seedPhrase walletIndex toAddress amountEth s"
  by (auto simp: transfer_index_ts_def transfer_def prog_defs Let_def
      split: sum.splits prod.splits if_splits)

subsection \<open>Validation of the recipient\<close>

text \<open>
  C4. When the recipient is not a well-formed address, \<open>transfer\<close> fails with
  \<open>InvalidInput\<close> and the state is the one it started in: the list of remote calls
  has not grown (no \<open>getBalance\<close>, \<open>getGasPrice\<close>, \<open>sendTransaction\<close> or
  \<open>waitForTransactionReceipt\<close>), and the ledger and the console are untouched.
\<close>

theorem transfer_malformed_recipient:
  "\<not> isAddress R toAddress \<Longrightarrow>
     transfer R this seedPhrase walletIndex toAddress amountEth s = (Inl InvalidInput, s)"
  by (simp add: transfer_def raise_def)

theorem transfer_malformed_recipient_witness:
  "\<not> isAddress demoRuntime ''0x1234'' \<and>
   transfer demoRuntime demoWallet testPhrase 0 ''0x1234'' ''1'' (demoState [testPhrase] demoLedger0) =
     (Inl InvalidInput, demoState [testPhrase] demoLedger0)"
proof -
  have h: "\<not> isAddress demoRuntime ''0x1234''"
    by (simp add: demoRuntime_def)
  from transfer_malformed_recipient [OF h] h show ?thesis by simp
qed

subsection \<open>At most one submission\<close>

text \<open>
  C1. Whatever the library and the ledger answer, one run of \<open>transfer\<close> appends to the
  list of remote calls a list \<open>new\<close> with at most one \<open>sendTransaction\<close>, so no second
  submission follows the first, however \<open>waitForTransactionReceipt\<close> ends. When a
  step before the submission fails, \<open>new\<close> has no \<open>sendTransaction\<close>: the recipient is
  malformed, the derivation throws, the balance read throws, the amount-only check
  fires, the gas price read throws, the amount does not parse, or the total cost
  exceeds the balance.
\<close>

theorem transfer_submits_at_most_once:
  assumes run: "transfer R this seedPhrase walletIndex toAddress amountEth s = (r, s')"
  shows "\<exists>new. calls s' = calls s @ new \<and> submits new \<le> 1 \<and>
    (\<not> isAddress R toAddress \<longrightarrow> submits new = 0) \<and>
    (\<forall>e. mnemonicToAccount R seedPhrase walletIndex = Inl e \<longrightarrow> submits new = 0) \<and>
    (\<forall>account. mnemonicToAccount R seedPhrase walletIndex = Inr account \<longrightarrow>
       (\<forall>e w1. getBalance R (address account) (world s) = (Inl e, w1) \<longrightarrow> submits new = 0) \<and>
       (\<forall>balance w1. getBalance R (address account) (world s) = (Inr balance, w1) \<longrightarrow>
          (numGt R (parseFloat R amountEth) (parseFloat R (formatEther R balance)) \<longrightarrow> submits new = 0) \<and>
          (\<forall>e w2. getGasPrice R w1 = (Inl e, w2) \<longrightarrow> submits new = 0) \<and>
          (\<forall>gasPrice w2. getGasPrice R w1 = (Inr gasPrice, w2) \<longrightarrow>
             (\<forall>e. parseEther R amountEth = Inl e \<longrightarrow> submits new = 0) \<and>
             (\<forall>parsed. parseEther R amountEth = Inr parsed \<longrightarrow>
                parsed + 21000 * gasPrice > balance \<longrightarrow> submits new = 0))))"
  using run
  by (auto simp: transfer_def prog_defs estimatedGas_def Let_def split: if_splits sum.splits prod.splits)

theorem transfer_submits_at_most_once_witness:
  "transfer demoRuntime demoWallet testPhrase 0 recipient ''1'' (demoState [testPhrase] demoLedger0) =
     (Inr ''0xfeed'',
      \<lparr>world = demoLedger0\<lparr>served := 1, pending := [(testAddress, recipient, 10 ^ 18)]\<rparr>,
       calls = [GetBalance testAddress, GetGasPrice, SendTransaction testAddress recipient (10 ^ 18),
                WaitForTransactionReceipt ''0xfeed''],
       console = [LogTransactionSent ''0xfeed'', LogWaitingForConfirmation, LogTransactionConfirmed 1],
       heap = [[testPhrase]]\<rparr>) \<and>
   (\<exists>new. [GetBalance testAddress, GetGasPrice, SendTransaction testAddress recipient (10 ^ 18),
           WaitForTransactionReceipt ''0xfeed''] = [] @ new \<and> submits new \<le> 1)"
proof -
  have run: "transfer demoRuntime demoWallet testPhrase 0 recipient ''1'' (demoState [testPhrase] demoLedger0) =
     (Inr ''0xfeed'',
      \<lparr>world = demoLedger0\<lparr>served := 1, pending := [(testAddress, recipient, 10 ^ 18)]\<rparr>,
       calls = [GetBalance testAddress, GetGasPrice, SendTransaction testAddress recipient (10 ^ 18),
                WaitForTransactionReceipt ''0xfeed''],
       console = [LogTransactionSent ''0xfeed'', LogWaitingForConfirmation, LogTransactionConfirmed 1],
       heap = [[testPhrase]]\<rparr>)"
    by (simp add: transfer_def prog_defs demo_defs Let_def bigintToString_def)
  from transfer_submits_at_most_once [OF run]
  have "\<exists>new. [GetBalance testAddress, GetGasPrice, SendTransaction testAddress recipient (10 ^ 18),
           WaitForTransactionReceipt ''0xfeed''] = [] @ new \<and> submits new \<le> 1"
    by (simp add: demoState_def)
  with run show ?thesis by simp
qed

subsection \<open>Affordability\<close>

text \<open>
  C2. Take a well-formed recipient, a signer that derives, a balance read answered
  with \<open>B\<close>, a gas price read answered with \<open>p\<close> and an amount that parses to \<open>a\<close>
  wei. When \<open>a > B\<close> (and the price \<open>p\<close> is not negative), \<open>transfer\<close> fails with
  \<open>InsufficientFunds\<close>, by the amount-only check or, where the rounding of that
  check lets the amount through, by the total-cost check; when \<open>a \<le> B\<close> and
  \<open>a + 21000 * p > B\<close>, it fails with \<open>InsufficientFunds\<close> too; and a
  \<open>sendTransaction\<close> is issued only when \<open>a + 21000 * p \<le> B\<close>.
\<close>

theorem transfer_affordability:
  assumes "isAddress R toAddress"
    and "mnemonicToAccount R seedPhrase walletIndex = Inr account"
    and "getBalance R (address account) (world s) = (Inr B, w1)"
    and "getGasPrice R w1 = (Inr p, w2)"
    and "parseEther R amountEth = Inr a"
  shows "(0 \<le> p \<and> a > B \<longrightarrow>
            fst (transfer R this seedPhrase walletIndex toAddress amountEth s) = Inl InsufficientFunds) \<and>
         (a \<le> B \<and> a + 21000 * p > B \<longrightarrow>
            fst (transfer R this seedPhrase walletIndex toAddress amountEth s) = Inl InsufficientFunds) \<and>
         (submits (calls (snd (transfer R this seedPhrase walletIndex toAddress amountEth s)))
            \<noteq> submits (calls s) \<longrightarrow> a + 21000 * p \<le> B)"
  using assms
  by (auto simp: transfer_def prog_defs estimatedGas_def Let_def split: if_splits sum.splits prod.splits)

theorem transfer_affordability_witness:
  "fst (transfer demoRuntime demoWallet testPhrase 0 recipient ''3'' (demoState [testPhrase] demoLedger0))
     = Inl InsufficientFunds \<and>
   fst (transfer demoRuntime demoWallet testPhrase 0 recipient ''2'' (demoState [testPhrase] demoLedger0))
     = Inl InsufficientFunds"
proof -
  let ?s = "demoState [testPhrase] demoLedger0"
  let ?w1 = "demoLedger0\<lparr>served := 1\<rparr>"
  have h1: "isAddress demoRuntime recipient"
    by (simp add: demoRuntime_def recipient_def)
  have h2: "mnemonicToAccount demoRuntime testPhrase 0 = Inr (demoAccount 0)"
    by (simp add: demoRuntime_def)
  have h3: "getBalance demoRuntime (address (demoAccount 0)) (world ?s) = (Inr (2 * 10 ^ 18), ?w1)"
    by (simp add: demo_defs)
  have h4: "getGasPrice demoRuntime ?w1 = (Inr (10 ^ 9), ?w1)"
    by (simp add: demo_defs)
  have h5: "parseEther demoRuntime ''3'' = Inr (3 * 10 ^ 18)"
    by (simp add: demo_defs)
  have h5': "parseEther demoRuntime ''2'' = Inr (2 * 10 ^ 18)"
    by (simp add: demo_defs)
  from transfer_affordability [OF h1 h2 h3 h4 h5, of demoWallet]
    transfer_affordability [OF h1 h2 h3 h4 h5', of demoWallet]
  show ?thesis by simp
qed

subsection \<open>An amount that is no non-negative decimal\<close>

text \<open>
  C3, as stated, fails, for both kinds of amount it names: \<open>transfer\<close> looks at the
  recipient only before it reads the ledger, and nothing in it looks at the sign of the
  amount. With the amount \<open>abc\<close>, which \<open>parseEther\<close> rejects (and \<open>parseFloat\<close> turns
  into NaN, so the amount-only check does not fire), it has read the balance and the
  gas price by the time it fails. With the amount \<open>-1\<close>, which \<open>parseEther\<close> accepts as
  minus \<open>10 ^ 18\<close> wei, neither check fires (the amount is below the balance, and so is
  the amount plus the gas cost), and \<open>sendTransaction\<close> is called with the negative
  value after the two reads.
\<close>

theorem transfer_unparsable_amount_counterexample:
  "parseEther demoRuntime ''abc'' = Inl InvalidInput \<and>
   calls (snd (transfer demoRuntime demoWallet testPhrase 0 recipient ''abc''
                 (demoState [testPhrase] demoLedger0)))
     = [GetBalance testAddress, GetGasPrice] \<and>
   parseEther demoRuntime ''-1'' = Inr (- (10 ^ 18)) \<and>
   take 3 (calls (snd (transfer demoRuntime demoWallet testPhrase 0 recipient ''-1''
                 (demoState [testPhrase] demoLedger0))))
     = [GetBalance testAddress, GetGasPrice, SendTransaction testAddress recipient (- (10 ^ 18))]"
  by (simp add: transfer_def prog_defs demo_defs bigintToString_def)

text \<open>
  C3, amended. No amount, whatever its form or sign, is examined before the balance is
  read: when the recipient is well-formed and the signer derives, the first remote call
  is the balance read. When \<open>parseEther\<close> rejects the amount, \<open>transfer\<close> fails and
  issues neither a submission nor a wait for a receipt: its remote calls are none, or
  one balance read, or one balance read and one gas price read; and when the recipient
  is well-formed, the signer derives, both reads are answered and the amount-only check
  does not fire, the error is the one \<open>parseEther\<close> threw and both reads were made.
  Nothing more is said of a negative decimal, which \<open>parseEther\<close> accepts.
\<close>

theorem transfer_unparsable_amount:
  "(\<forall>account.
      isAddress R toAddress \<and> mnemonicToAccount R seedPhrase walletIndex = Inr account \<longrightarrow>
      (\<exists>rest. calls (snd (transfer R this seedPhrase walletIndex toAddress amountEth s)) =
                calls s @ GetBalance (address account) # rest)) \<and>
   (\<forall>e. parseEther R amountEth = Inl e \<longrightarrow>
     (\<exists>err new.
        fst (transfer R this seedPhrase walletIndex toAddress amountEth s) = Inl err \<and>
        calls (snd (transfer R this seedPhrase walletIndex toAddress amountEth s)) = calls s @ new \<and>
        (new = [] \<or> (\<exists>a. new = [GetBalance a]) \<or> (\<exists>a. new = [GetBalance a, GetGasPrice])) \<and>
        (\<forall>account balance w1 gasPrice w2.
           isAddress R toAddress \<and>
           mnemonicToAccount R seedPhrase walletIndex = Inr account \<and>
           getBalance R (address account) (world s) = (Inr balance, w1) \<and>
           \<not> numGt R (parseFloat R amountEth) (parseFloat R (formatEther R balance)) \<and>
           getGasPrice R w1 = (Inr gasPrice, w2) \<longrightarrow>
           err = e \<and> new = [GetBalance (address account), GetGasPrice])))"
proof (intro conjI allI impI)
  fix account
  assume "isAddress R toAddress \<and> mnemonicToAccount R seedPhrase walletIndex = Inr account"
  then show "\<exists>rest. calls (snd (transfer R this seedPhrase walletIndex toAddress amountEth s)) =
                calls s @ GetBalance (address account) # rest"
    by (auto simp: transfer_def prog_defs estimatedGas_def Let_def
        split: if_splits sum.splits prod.splits)
next
  fix e
  assume "parseEther R amountEth = Inl e"
  then show "\<exists>err new.
        fst (transfer R this seedPhrase walletIndex toAddress amountEth s) = Inl err \<and>
        calls (snd (transfer R this seedPhrase walletIndex toAddress amountEth s)) = calls s @ new \<and>
        (new = [] \<or> (\<exists>a. new = [GetBalance a]) \<or> (\<exists>a. new = [GetBalance a, GetGasPrice])) \<and>
        (\<forall>account balance w1 gasPrice w2.
           isAddress R toAddress \<and>
           mnemonicToAccount R seedPhrase walletIndex = Inr account \<and>
           getBalance R (address account) (world s) = (Inr balance, w1) \<and>
           \<not> numGt R (parseFloat R amountEth) (parseFloat R (formatEther R balance)) \<and>
           getGasPrice R w1 = (Inr gasPrice, w2) \<longrightarrow>
           err = e \<and> new = [GetBalance (address account), GetGasPrice])"
    by (auto simp: transfer_def prog_defs estimatedGas_def Let_def
        split: if_splits sum.splits prod.splits)
qed

theorem transfer_unparsable_amount_witness:
  "parseEther demoRuntime ''one ether'' = Inl InvalidInput \<and>
   (\<exists>rest. calls (snd (transfer demoRuntime demoWallet testPhrase 0 recipient ''one ether''
             (demoState [testPhrase] demoLedger0))) = [] @ GetBalance testAddress # rest) \<and>
   (\<exists>err new.
      fst (transfer demoRuntime demoWallet testPhrase 0 recipient ''one ether''
             (demoState [testPhrase] demoLedger0)) = Inl err \<and>
      calls (snd (transfer demoRuntime demoWallet testPhrase 0 recipient ''one ether''
             (demoState [testPhrase] demoLedger0))) = [] @ new \<and>
      (new = [] \<or> (\<exists>a. new = [GetBalance a]) \<or> (\<exists>a. new = [GetBalance a, GetGasPrice])))"
proof -
  have h: "parseEther demoRuntime ''one ether'' = Inl InvalidInput"
    by (simp add: demoRuntime_def)
  have a: "isAddress demoRuntime recipient \<and>
           mnemonicToAccount demoRuntime testPhrase 0 = Inr (demoAccount 0)"
    by (simp add: demoRuntime_def recipient_def)
  note t = transfer_unparsable_amount [of demoRuntime recipient testPhrase 0 demoWallet
      "''one ether''" "demoState [testPhrase] demoLedger0"]
  from t a have "\<exists>rest. calls (snd (transfer demoRuntime demoWallet testPhrase 0 recipient ''one ether''
             (demoState [testPhrase] demoLedger0))) = [] @ GetBalance testAddress # rest"
    by (simp add: demoState_def demoAccount_def)
  moreover from t h have "\<exists>err new.
      fst (transfer demoRuntime demoWallet testPhrase 0 recipient ''one ether''
             (demoState [testPhrase] demoLedger0)) = Inl err \<and>
      calls (snd (transfer demoRuntime demoWallet testPhrase 0 recipient ''one ether''
             (demoState [testPhrase] demoLedger0))) = [] @ new \<and>
      (new = [] \<or> (\<exists>a. new = [GetBalance a]) \<or> (\<exists>a. new = [GetBalance a, GetGasPrice]))"
    by (auto simp: demoState_def)
  ultimately show ?thesis using h by blast
qed

subsection \<open>A confirmation that times out\<close>

text \<open>
  C9. When a run reaches the wait for the receipt (every step up to the submission
  succeeded and \<open>sendTransaction\<close> returned a hash) and the wait fails with \<open>Timeout\<close>,
  \<open>transfer\<close> fails with \<open>Timeout\<close>, which is not \<open>RejectedTransaction\<close>. The remote
  calls are the two reads, the one submission and the wait; the ledger is left as the
  wait left it, so nothing undoes or repeats the submission.
\<close>

theorem transfer_confirmation_timeout:
  assumes "isAddress R toAddress"
    and "mnemonicToAccount R seedPhrase walletIndex = Inr account"
    and "getBalance R (address account) (world s) = (Inr balance, w1)"
    and "\<not> numGt R (parseFloat R amountEth) (parseFloat R (formatEther R balance))"
    and "getGasPrice R w1 = (Inr gasPrice, w2)"
    and "parseEther R amountEth = Inr amount"
    and "amount + 21000 * gasPrice \<le> balance"
    and "sendTransaction R (createWalletClient account (rpcUrl this)) (Some account) toAddress amount w2
           = (Inr hash, w3)"
    and "waitForTransactionReceipt R hash w3 = (Inl Timeout, w4)"
  shows "transfer R this seedPhrase walletIndex toAddress amountEth s =
          (Inl Timeout,
           s\<lparr>world := w4,
             calls := calls s @ [GetBalance (address account), GetGasPrice,
                                 SendTransaction (address account) toAddress amount,
                                 WaitForTransactionReceipt hash],
             console := console s @ [LogTransactionSent hash, LogWaitingForConfirmation]\<rparr>) \<and>
         fst (transfer R this seedPhrase walletIndex toAddress amountEth s) \<noteq> Inl RejectedTransaction \<and>
         submits (calls (snd (transfer R this seedPhrase walletIndex toAddress amountEth s)))
           = Suc (submits (calls s))"
  using assms
  by (simp add: transfer_def prog_defs estimatedGas_def Let_def)

theorem transfer_confirmation_timeout_witness:
  "fst (transfer demoRuntime demoWallet testPhrase 0 recipient ''1''
          (demoState [testPhrase] (demoLedger0\<lparr>confirms := False\<rparr>))) = Inl Timeout \<and>
   calls (snd (transfer demoRuntime demoWallet testPhrase 0 recipient ''1''
          (demoState [testPhrase] (demoLedger0\<lparr>confirms := False\<rparr>)))) =
     [GetBalance testAddress, GetGasPrice, SendTransaction testAddress recipient (10 ^ 18),
      WaitForTransactionReceipt ''0xfeed'']"
proof -
  let ?w0 = "demoLedger0\<lparr>confirms := False\<rparr>"
  let ?w1 = "?w0\<lparr>served := 1\<rparr>"
  let ?w3 = "?w1\<lparr>pending := [(testAddress, recipient, 10 ^ 18)]\<rparr>"
  have h1: "isAddress demoRuntime recipient"
    by (simp add: demoRuntime_def recipient_def)
  have h2: "mnemonicToAccount demoRuntime testPhrase 0 = Inr (demoAccount 0)"
    by (simp add: demoRuntime_def)
  have h3: "getBalance demoRuntime (address (demoAccount 0)) (world (demoState [testPhrase] ?w0))
             = (Inr (2 * 10 ^ 18), ?w1)"
    by (simp add: demo_defs)
  have h4: "\<not> numGt demoRuntime (parseFloat demoRuntime ''1'')
               (parseFloat demoRuntime (formatEther demoRuntime (2 * 10 ^ 18)))"
    by (simp add: demo_defs bigintToString_def)
  have h5: "getGasPrice demoRuntime ?w1 = (Inr (10 ^ 9), ?w1)"
    by (simp add: demo_defs)
  have h6: "parseEther demoRuntime ''1'' = Inr (10 ^ 18)"
    by (simp add: demo_defs)
  have h7: "(10 ^ 18 :: int) + 21000 * 10 ^ 9 \<le> 2 * 10 ^ 18"
    by simp
  have h8: "sendTransaction demoRuntime (createWalletClient (demoAccount 0) (rpcUrl demoWallet))
              (Some (demoAccount 0)) recipient (10 ^ 18) ?w1 = (Inr ''0xfeed'', ?w3)"
    by (simp add: demo_defs)
  have h9: "waitForTransactionReceipt demoRuntime ''0xfeed'' ?w3 = (Inl Timeout, ?w3)"
    by (simp add: demo_defs)
  from transfer_confirmation_timeout [OF h1 h2 h3 h4 h5 h6 h7 h8 h9]
  show ?thesis
    by (simp add: demoState_def demoAccount_def)
qed

section \<open>listWalletsWithBalance\<close>

subsection \<open>The two loops as one pass over the pairs\<close>

lemma scanEntry_eq:
  "scanEntry R p i ws s =
     (case queryBalance R p i s of
        (Inl e, s') \<Rightarrow> (Inr ws, s'\<lparr>console := console s' @ [ErrorCheckingWalletIndex i e]\<rparr>)
      | (Inr ab, s') \<Rightarrow>
          (Inr (ws @ (if hasBalance (Inr ab) then [walletInfo R (p, i) (Inr ab)] else [])), s'))"
  by (auto simp: scanEntry_def queryBalance_def prog_defs hasBalance_def walletInfo_def Let_def
      split: sum.splits prod.splits)

lemma queryBalance_console: "console (snd (queryBalance R p i s)) = console s"
  by (auto simp: queryBalance_def prog_defs split: sum.splits prod.splits)

lemma queryBalance_heap: "heap (snd (queryBalance R p i s)) = heap s"
  by (auto simp: queryBalance_def prog_defs split: sum.splits prod.splits)

lemma scanEntry_fst:
  "fst (scanEntry R p i ws s) =
     Inr (ws @ (if hasBalance (fst (queryBalance R p i s))
                then [walletInfo R (p, i) (fst (queryBalance R p i s))] else []))"
  by (auto simp: scanEntry_eq hasBalance_def split: sum.splits prod.splits)

lemma scanEntry_snd: "snd (scanEntry R p i ws s) = snd (scanEntry R p i [] s)"
  by (auto simp: scanEntry_eq split: sum.splits prod.splits)

lemma scanEntry_console:
  "console (snd (scanEntry R p i ws s)) =
     console s @ (case fst (queryBalance R p i s) of
                    Inl e \<Rightarrow> [ErrorCheckingWalletIndex i e] | Inr _ \<Rightarrow> [])"
  using queryBalance_console [of R p i s]
  by (auto simp: scanEntry_eq split: sum.splits prod.splits)

lemma answers_Nil [simp]: "answers R [] s = []"
  by (simp add: answers_def)

lemma answers_Cons [simp]:
  "answers R ((p, i) # ps) s =
     fst (queryBalance R p i s) # answers R ps (snd (scanEntry R p i [] s))"
  by (simp add: answers_def)

lemma length_turnStates [simp]: "length (turnStates R ps s) = length ps"
  by (induction ps arbitrary: s) auto

lemma length_answers [simp]: "length (answers R ps s) = length ps"
  by (simp add: answers_def)

lemma scanPairs_fst:
  "fst (scanPairs R ps ws s) =
     Inr (ws @ map (\<lambda>(pr, a). walletInfo R pr a)
                 (filter (\<lambda>(pr, a). hasBalance a) (zip ps (answers R ps s))))"
proof (induction ps arbitrary: ws s)
  case Nil
  show ?case by simp
next
  case (Cons pr ps)
  obtain p i where pr: "pr = (p, i)" by (cases pr)
  obtain r s' where e: "scanEntry R p i ws s = (r, s')" by (cases "scanEntry R p i ws s")
  have r: "r = Inr (ws @ (if hasBalance (fst (queryBalance R p i s))
                then [walletInfo R (p, i) (fst (queryBalance R p i s))] else []))"
    using scanEntry_fst [of R p i ws s] e by simp
  have s': "s' = snd (scanEntry R p i [] s)"
    using scanEntry_snd [of R p i ws s] e by simp
  show ?case
    by (simp add: pr e r Cons.IH s')
qed

lemma scanPairs_console:
  "console (snd (scanPairs R ps ws s)) = console s @ errorLines ps (answers R ps s)"
proof (induction ps arbitrary: ws s)
  case Nil
  show ?case by (simp add: errorLines_def)
next
  case (Cons pr ps)
  obtain p i where pr: "pr = (p, i)" by (cases pr)
  obtain r s' where e: "scanEntry R p i ws s = (r, s')" by (cases "scanEntry R p i ws s")
  obtain ws' where r: "r = Inr ws'"
    using scanEntry_fst [of R p i ws s] e by simp
  have s': "s' = snd (scanEntry R p i [] s)"
    using scanEntry_snd [of R p i ws s] e by simp
  have c: "console s' = console s @ (case fst (queryBalance R p i s) of
                    Inl e \<Rightarrow> [ErrorCheckingWalletIndex i e] | Inr _ \<Rightarrow> [])"
    using scanEntry_console [of R p i ws s] e by simp
  have "console (snd (scanPairs R (pr # ps) ws s)) = console s' @ errorLines ps (answers R ps s')"
    by (simp add: pr e r Cons.IH)
  then show ?case
    by (simp add: pr c s' [symmetric] errorLines_def)
qed

lemma scanPairs_append:
  "scanPairs R (ps @ qs) ws s =
     (case scanPairs R ps ws s of
        (Inl e, s') \<Rightarrow> (Inl e, s')
      | (Inr ws', s') \<Rightarrow> scanPairs R qs ws' s')"
proof (induction ps arbitrary: ws s)
  case Nil
  show ?case by simp
next
  case (Cons pr ps)
  obtain p i where pr: "pr = (p, i)" by (cases pr)
  show ?case
    by (simp add: pr Cons.IH split: sum.splits prod.splits)
qed

lemma indexLoop_scanPairs:
  "indexLoop R p m i ws s = scanPairs R (map (\<lambda>k. (p, k)) [i..<m]) ws s"
proof (induction R p m i ws s rule: indexLoop.induct)
  case (1 R p m i ws s)
  show ?case
  proof (cases "i < m")
    case True
    then have u: "[i..<m] = i # [Suc i..<m]" by (simp add: upt_conv_Cons)
    show ?thesis
      using True "1.IH"
      by (subst indexLoop.simps) (auto simp: u split: sum.splits prod.splits)
  next
    case False
    then show ?thesis by (subst indexLoop.simps) simp
  qed
qed

lemma phraseLoop_scanPairs:
  "phraseLoop R phrases m ws s = scanPairs R (enumeration phrases m) ws s"
proof (induction phrases arbitrary: ws s)
  case Nil
  show ?case by (simp add: enumeration_def)
next
  case (Cons p phrases)
  have e: "enumeration (p # phrases) m = map (\<lambda>k. (p, k)) [0..<m] @ enumeration phrases m"
    by (simp add: enumeration_def)
  show ?case
    by (simp add: e scanPairs_append indexLoop_scanPairs Cons.IH split: sum.splits prod.splits)
qed

lemma listWalletsWithBalance_fst:
  "fst (listWalletsWithBalance R this (Some m) s) =
     Inr (map (\<lambda>(pr, a). walletInfo R pr a)
            (filter (\<lambda>(pr, a). hasBalance a)
               (zip (enumeration (heap s ! seedPhrases this) m)
                    (answers R (enumeration (heap s ! seedPhrases this) m) s))))"
  by (simp add: listWalletsWithBalance_def phraseLoop_scanPairs scanPairs_fst)


lemma map_filter_positions:
  "map f (filter P xs) =
     map (\<lambda>j. f (xs ! j)) (filter (\<lambda>j. P (xs ! j)) [0..<length xs])"
proof -
  have "map f (filter P xs) = map f (filter P (map (\<lambda>j. xs ! j) [0..<length xs]))"
    by (simp add: map_nth)
  also have "\<dots> = map (\<lambda>j. f (xs ! j)) (filter (\<lambda>j. P (xs ! j)) [0..<length xs])"
    by (simp add: filter_map comp_def)
  finally show ?thesis .
qed

lemma listWalletsWithBalance_positions:
  assumes ps: "ps = enumeration (heap s ! seedPhrases this) m"
    and as: "as = answers R ps s"
  shows "fst (listWalletsWithBalance R this (Some m) s) =
     Inr (map (\<lambda>j. walletInfo R (ps ! j) (as ! j))
            (filter (\<lambda>j. hasBalance (as ! j)) [0..<length ps]))"
proof -
  have len: "length (zip ps as) = length ps"
    by (simp add: as)
  have "map (\<lambda>(pr, a). walletInfo R pr a) (filter (\<lambda>(pr, a). hasBalance a) (zip ps as)) =
        map (\<lambda>j. case zip ps as ! j of (pr, a) \<Rightarrow> walletInfo R pr a)
            (filter (\<lambda>j. case zip ps as ! j of (pr, a) \<Rightarrow> hasBalance a) [0..<length ps])"
    using map_filter_positions [of "\<lambda>(pr, a). walletInfo R pr a" "\<lambda>(pr, a). hasBalance a" "zip ps as"]
    by (simp only: len)
  also have "\<dots> = map (\<lambda>j. walletInfo R (ps ! j) (as ! j))
            (filter (\<lambda>j. hasBalance (as ! j)) [0..<length ps])"
  proof -
    have f: "filter (\<lambda>j. case zip ps as ! j of (pr, a) \<Rightarrow> hasBalance a) [0..<length ps] =
             filter (\<lambda>j. hasBalance (as ! j)) [0..<length ps]"
      by (rule filter_cong) (simp_all add: as)
    show ?thesis
      unfolding f by (rule map_cong) (simp_all add: as)
  qed
  finally show ?thesis
    by (simp add: listWalletsWithBalance_fst ps as)
qed

lemma enumeration_product: "enumeration phrases m = List.product phrases [0..<m]"
  by (induction phrases) (simp_all add: enumeration_def)

lemma length_enumeration: "length (enumeration phrases m) = length phrases * m"
  by (simp add: enumeration_product)

lemma enumeration_nth:
  assumes "k < length phrases" and "i < m"
  shows "enumeration phrases m ! (k * m + i) = (phrases ! k, i)"
proof -
  have "k * m + i < Suc k * m" using assms by simp
  also have "\<dots> \<le> length phrases * m"
    using assms by (intro mult_le_mono1) simp
  finally have b: "k * m + i < length phrases * length [0..<m]" by simp
  show ?thesis
    using assms product_nth [OF b] by (simp add: enumeration_product)
qed

lemma scanEntry_calls:
  "calls (snd (scanEntry R p i ws s)) =
     calls s @ (case mnemonicToAccount R p i of Inl _ \<Rightarrow> [] | Inr a \<Rightarrow> [GetBalance (address a)])"
  by (auto simp: scanEntry_def prog_defs Let_def split: sum.splits prod.splits)

lemma scanPairs_calls:
  "calls (snd (scanPairs R ps ws s)) = calls s @ balanceQueries R ps"
proof (induction ps arbitrary: ws s)
  case Nil
  show ?case by (simp add: balanceQueries_def)
next
  case (Cons pr ps)
  obtain p i where pr: "pr = (p, i)" by (cases pr)
  obtain r s' where e: "scanEntry R p i ws s = (r, s')" by (cases "scanEntry R p i ws s")
  obtain ws' where r: "r = Inr ws'"
    using scanEntry_fst [of R p i ws s] e by simp
  have c: "calls s' = calls s @ (case mnemonicToAccount R p i of
                                   Inl _ \<Rightarrow> [] | Inr a \<Rightarrow> [GetBalance (address a)])"
    using scanEntry_calls [of R p i ws s] e by simp
  have "calls (snd (scanPairs R (pr # ps) ws s)) = calls s' @ balanceQueries R ps"
    by (simp add: pr e r Cons.IH)
  then show ?case
    by (simp add: pr c balanceQueries_def)
qed

lemma listWalletsWithBalance_default:
  "listWalletsWithBalance R this None = listWalletsWithBalance R this (Some 20)"
  by (simp add: listWalletsWithBalance_def)

lemma listWalletsWithBalance_console:
  "console (snd (listWalletsWithBalance R this (Some m) s)) =
     console s @ errorLines (enumeration (heap s ! seedPhrases this) m)
                            (answers R (enumeration (heap s ! seedPhrases this) m) s)"
  by (simp add: listWalletsWithBalance_def phraseLoop_scanPairs scanPairs_console)

lemma listWalletsWithBalance_calls:
  "calls (snd (listWalletsWithBalance R this (Some m) s)) =
     calls s @ balanceQueries R (enumeration (heap s ! seedPhrases this) m)"
  by (simp add: listWalletsWithBalance_def phraseLoop_scanPairs scanPairs_calls)

lemma answers_nth:
  assumes "j < length ps" and "ps ! j = (p, i)"
  shows "answers R ps s ! j = fst (queryBalance R p i (turnStates R ps s ! j))"
  using assms by (simp add: answers_def)

lemma queryBalance_fst:
  "fst (queryBalance R p i s) =
     (case mnemonicToAccount R p i of
        Inl e \<Rightarrow> Inl e
      | Inr a \<Rightarrow> (case fst (getBalance R (address a) (world s)) of
                    Inl e \<Rightarrow> Inl e | Inr b \<Rightarrow> Inr (a, b)))"
  by (auto simp: queryBalance_def prog_defs split: sum.splits prod.splits)

lemma errorLines_member:
  assumes "j < length ps" and "length rs = length ps" and "ps ! j = (p, i)" and "rs ! j = Inl e"
  shows "ErrorCheckingWalletIndex i e \<in> set (errorLines ps rs)"
proof -
  have "(ps ! j, rs ! j) \<in> set (zip ps rs)"
    using assms by (metis in_set_zip fst_conv snd_conv)
  then have "((p, i), Inl e) \<in> set (zip ps rs)"
    using assms by simp
  then show ?thesis
    unfolding errorLines_def by (force simp: image_iff)
qed

lemma distinct_enumeration: "distinct phrases \<Longrightarrow> distinct (enumeration phrases m)"
  by (simp add: enumeration_product distinct_product)

lemma queryBalance_heap_update:
  "queryBalance R p i (s\<lparr>heap := h\<rparr>) =
     (case queryBalance R p i s of (r, s') \<Rightarrow> (r, s'\<lparr>heap := h\<rparr>))"
  by (auto simp: queryBalance_def prog_defs split: sum.splits prod.splits)

lemma scanEntry_heap_update:
  "scanEntry R p i ws (s\<lparr>heap := h\<rparr>) =
     (case scanEntry R p i ws s of (r, s') \<Rightarrow> (r, s'\<lparr>heap := h\<rparr>))"
  by (auto simp: scanEntry_eq queryBalance_heap_update split: sum.splits prod.splits)

lemma scanPairs_heap_update:
  "scanPairs R ps ws (s\<lparr>heap := h\<rparr>) =
     (case scanPairs R ps ws s of (r, s') \<Rightarrow> (r, s'\<lparr>heap := h\<rparr>))"
proof (induction ps arbitrary: ws s)
  case Nil
  show ?case by simp
next
  case (Cons pr ps)
  obtain p i where pr: "pr = (p, i)" by (cases pr)
  show ?case
    by (simp add: pr scanEntry_heap_update Cons.IH split: sum.splits prod.splits)
qed

lemma listWalletsWithBalance_heap_update:
  assumes "h ! seedPhrases this = heap s ! seedPhrases this"
  shows "listWalletsWithBalance R this maxIndexArg (s\<lparr>heap := h\<rparr>) =
     (case listWalletsWithBalance R this maxIndexArg s of (r, s') \<Rightarrow> (r, s'\<lparr>heap := h\<rparr>))"
  using assms
  by (simp add: listWalletsWithBalance_def phraseLoop_scanPairs scanPairs_heap_update)

subsection \<open>Enumeration, order and content of the result\<close>

text \<open>
  C5, as stated, fails: it says of every list of phrases that the result has no pair
  twice. The wallet takes its phrases as they are configured and does not remove a
  phrase that is configured twice; the scan then visits the pairs of that phrase
  twice and returns their entries twice. Here one phrase is configured twice, its
  first account holds a balance, and the scan of one index returns the entry of the
  pair (phrase, 0) two times.
\<close>

theorem scan_duplicate_phrase_counterexample:
  "fst (listWalletsWithBalance demoRuntime demoWallet (Some 1)
          (demoState [testPhrase, testPhrase] demoLedger0)) =
     Inr [\<lparr>info_address = testAddress, info_balance = ''2000000000000000000'',
           info_balanceEth = ''2'', info_index = 0, info_seedPhrase = ''test test test...''\<rparr>,
          \<lparr>info_address = testAddress, info_balance = ''2000000000000000000'',
           info_balanceEth = ''2'', info_index = 0, info_seedPhrase = ''test test test...''\<rparr>]"
  by (simp add: scan_defs prog_defs demo_defs)

text \<open>
  C5, amended: no position of the enumeration occurs twice in the result, and no pair
  does when no phrase is configured twice; the rest is as stated. Let \<open>phrases\<close> be the
  wallet's \<open>N\<close> seed phrases, \<open>ps\<close> the pairs (phrase, index)
  with index below \<open>m\<close>, phrase by phrase and index by index, and \<open>as\<close> the answer the
  query of each pair gets during the scan. There are \<open>N * m\<close> pairs, the pair of the
  \<open>k\<close>-th phrase and index \<open>i\<close> at position \<open>k * m + i\<close>, and the remote calls of the
  scan are the balance queries of these pairs in this order. The scan returns the
  entries of the positions \<open>js\<close>, a strictly increasing list of positions of \<open>ps\<close>: so
  the pairs of the entries are a subsequence of \<open>ps\<close> in its order, no position occurs
  twice (and no pair, when the phrases are distinct), there are at most \<open>N * m\<close>
  entries, and a position is among \<open>js\<close> exactly when its query was answered with a
  balance above zero.
\<close>

theorem scan_enumeration:
  assumes phrases: "phrases = heap s ! seedPhrases this"
    and ps: "ps = enumeration phrases m"
    and as: "as = answers R ps s"
  shows "length ps = length phrases * m \<and>
    length as = length ps \<and>
    (\<forall>k<length phrases. \<forall>i<m. ps ! (k * m + i) = (phrases ! k, i)) \<and>
    calls (snd (listWalletsWithBalance R this (Some m) s)) = calls s @ balanceQueries R ps \<and>
    (\<exists>js. fst (listWalletsWithBalance R this (Some m) s) =
             Inr (map (\<lambda>j. walletInfo R (ps ! j) (as ! j)) js) \<and>
          sorted_wrt (<) js \<and> distinct js \<and> set js \<subseteq> {..<length ps} \<and>
          subseq (map (\<lambda>j. ps ! j) js) ps \<and>
          (distinct phrases \<longrightarrow> distinct (map (\<lambda>j. ps ! j) js)) \<and>
          length js \<le> length phrases * m \<and>
          (\<forall>j<length ps. j \<in> set js \<longleftrightarrow> (\<exists>a b. as ! j = Inr (a, b) \<and> 0 < b)))"
proof -
  let ?js = "filter (\<lambda>j. hasBalance (as ! j)) [0..<length ps]"
  have l: "length ps = length phrases * m"
    by (simp add: ps length_enumeration)
  have n: "\<forall>k<length phrases. \<forall>i<m. ps ! (k * m + i) = (phrases ! k, i)"
    by (simp add: ps enumeration_nth)
  have c: "calls (snd (listWalletsWithBalance R this (Some m) s)) = calls s @ balanceQueries R ps"
    by (simp add: listWalletsWithBalance_calls ps phrases)
  have r: "fst (listWalletsWithBalance R this (Some m) s) =
             Inr (map (\<lambda>j. walletInfo R (ps ! j) (as ! j)) ?js)"
    using ps as phrases by (simp add: listWalletsWithBalance_positions)
  have so: "sorted_wrt (<) ?js"
    by (simp add: sorted_wrt_filter)
  have d: "distinct ?js" by simp
  have sub: "set ?js \<subseteq> {..<length ps}" by auto
  have "subseq (map (\<lambda>j. ps ! j) ?js) (map (\<lambda>j. ps ! j) [0..<length ps])"
    by (intro subseq_map subseq_filter_left)
  then have su: "subseq (map (\<lambda>j. ps ! j) ?js) ps"
    by (simp add: map_nth)
  have dp: "distinct phrases \<longrightarrow> distinct (map (\<lambda>j. ps ! j) ?js)"
  proof
    assume "distinct phrases"
    then have "distinct ps"
      by (simp add: ps distinct_enumeration)
    then have "inj_on (\<lambda>j. ps ! j) (set ?js)"
      by (intro inj_on_nth) auto
    then show "distinct (map (\<lambda>j. ps ! j) ?js)"
      by (simp add: distinct_map)
  qed
  have le: "length ?js \<le> length phrases * m"
    using length_filter_le [of "\<lambda>j. hasBalance (as ! j)" "[0..<length ps]"] l by simp
  have iff: "\<forall>j<length ps. j \<in> set ?js \<longleftrightarrow> (\<exists>a b. as ! j = Inr (a, b) \<and> 0 < b)"
    by (auto simp: hasBalance_def split: sum.splits)
  have "fst (listWalletsWithBalance R this (Some m) s) =
             Inr (map (\<lambda>j. walletInfo R (ps ! j) (as ! j)) ?js) \<and>
          sorted_wrt (<) ?js \<and> distinct ?js \<and> set ?js \<subseteq> {..<length ps} \<and>
          subseq (map (\<lambda>j. ps ! j) ?js) ps \<and>
          (distinct phrases \<longrightarrow> distinct (map (\<lambda>j. ps ! j) ?js)) \<and>
          length ?js \<le> length phrases * m \<and>
          (\<forall>j<length ps. j \<in> set ?js \<longleftrightarrow> (\<exists>a b. as ! j = Inr (a, b) \<and> 0 < b))"
    using r so d sub su dp le iff by blast
  then have ex: "\<exists>js. fst (listWalletsWithBalance R this (Some m) s) =
             Inr (map (\<lambda>j. walletInfo R (ps ! j) (as ! j)) js) \<and>
          sorted_wrt (<) js \<and> distinct js \<and> set js \<subseteq> {..<length ps} \<and>
          subseq (map (\<lambda>j. ps ! j) js) ps \<and>
          (distinct phrases \<longrightarrow> distinct (map (\<lambda>j. ps ! j) js)) \<and>
          length js \<le> length phrases * m \<and>
          (\<forall>j<length ps. j \<in> set js \<longleftrightarrow> (\<exists>a b. as ! j = Inr (a, b) \<and> 0 < b))"
    by (rule exI)
  have la: "length as = length ps"
    by (simp add: as)
  show ?thesis
    using l la n c ex by blast
qed

theorem scan_enumeration_witness:
  "length (enumeration (heap (demoState [testPhrase, ''bad phrase''] demoLedger0) ! seedPhrases demoWallet) 2) = 4 \<and>
   fst (listWalletsWithBalance demoRuntime demoWallet (Some 2)
          (demoState [testPhrase, ''bad phrase''] demoLedger0)) =
     Inr [\<lparr>info_address = testAddress, info_balance = ''2000000000000000000'',
           info_balanceEth = ''2'', info_index = 0, info_seedPhrase = ''test test test...''\<rparr>]"
proof -
  note t = scan_enumeration [OF refl refl refl, of "demoState [testPhrase, ''bad phrase''] demoLedger0"
      demoWallet 2 demoRuntime]
  from t have "length (enumeration (heap (demoState [testPhrase, ''bad phrase''] demoLedger0) ! seedPhrases demoWallet) 2) = 4"
    by (simp add: demoState_def demoWallet_def)
  moreover have "fst (listWalletsWithBalance demoRuntime demoWallet (Some 2)
          (demoState [testPhrase, ''bad phrase''] demoLedger0)) =
     Inr [\<lparr>info_address = testAddress, info_balance = ''2000000000000000000'',
           info_balanceEth = ''2'', info_index = 0, info_seedPhrase = ''test test test...''\<rparr>]"
    by (simp add: scan_defs prog_defs demo_defs)
  ultimately show ?thesis by simp
qed

subsection \<open>A balance query that fails\<close>

text \<open>
  C6. Take any pair of the enumeration, at position \<open>j\<close>, whose account derives and
  whose balance query, in the state the scan has reached, throws \<open>NetworkError\<close>. The
  scan does not throw: it returns the entries of the other positions, before and
  after \<open>j\<close>, each with the answer its own query got, so only the pair at \<open>j\<close> is
  skipped. The error is written to the console with the index, and the remote calls
  are still the balance queries of all the pairs.
\<close>

theorem scan_skips_failed_query:
  assumes ps: "ps = enumeration (heap s ! seedPhrases this) m"
    and as: "as = answers R ps s"
    and j: "j < length ps"
    and pj: "ps ! j = (p, i)"
    and derived: "mnemonicToAccount R p i = Inr a"
    and fails: "fst (getBalance R (address a) (world (turnStates R ps s ! j))) = Inl NetworkError"
  shows "fst (listWalletsWithBalance R this (Some m) s) =
           Inr (map (\<lambda>k. walletInfo R (ps ! k) (as ! k))
                  (filter (\<lambda>k. hasBalance (as ! k)) ([0..<j] @ [Suc j..<length ps]))) \<and>
         ErrorCheckingWalletIndex i NetworkError
           \<in> set (console (snd (listWalletsWithBalance R this (Some m) s))) \<and>
         calls (snd (listWalletsWithBalance R this (Some m) s)) = calls s @ balanceQueries R ps"
proof -
  have aj: "as ! j = Inl NetworkError"
    using answers_nth [OF j pj, of R s] derived fails by (simp add: as queryBalance_fst)
  then have nj: "\<not> hasBalance (as ! j)"
    by (simp add: hasBalance_def)
  have "[0..<length ps] = [0..<j] @ [j..<j + (length ps - j)]"
    using upt_add_eq_append [of 0 j "length ps - j"] j by simp
  moreover have "[j..<j + (length ps - j)] = j # [Suc j..<length ps]"
    using j by (simp add: upt_conv_Cons)
  ultimately have "[0..<length ps] = [0..<j] @ j # [Suc j..<length ps]"
    by simp
  then have f: "filter (\<lambda>k. hasBalance (as ! k)) [0..<length ps] =
                filter (\<lambda>k. hasBalance (as ! k)) ([0..<j] @ [Suc j..<length ps])"
    using nj by simp
  have r: "fst (listWalletsWithBalance R this (Some m) s) =
           Inr (map (\<lambda>k. walletInfo R (ps ! k) (as ! k))
                  (filter (\<lambda>k. hasBalance (as ! k)) ([0..<j] @ [Suc j..<length ps])))"
    using listWalletsWithBalance_positions [OF ps as] f by simp
  have "ErrorCheckingWalletIndex i NetworkError \<in> set (errorLines ps as)"
    using errorLines_member [OF j _ pj aj] by (simp add: as)
  then have c: "ErrorCheckingWalletIndex i NetworkError
           \<in> set (console (snd (listWalletsWithBalance R this (Some m) s)))"
    by (simp add: listWalletsWithBalance_console ps as)
  show ?thesis
    using r c by (simp add: listWalletsWithBalance_calls ps)
qed

theorem scan_skips_failed_query_witness:
  "fst (listWalletsWithBalance demoRuntime demoWallet (Some 2)
          (demoState [testPhrase]
             (demoLedger0\<lparr>offlineAt := [0],
                funded := [(testAddress, 2 * 10 ^ 18), (address (demoAccount 1), 10 ^ 18)]\<rparr>))) =
     Inr [\<lparr>info_address = ''0x0000000000000000000000000000000000000011'',
           info_balance = ''1000000000000000000'', info_balanceEth = ''1'',
           info_index = 1, info_seedPhrase = ''test test test...''\<rparr>] \<and>
   ErrorCheckingWalletIndex 0 NetworkError \<in> set (console (snd
     (listWalletsWithBalance demoRuntime demoWallet (Some 2)
          (demoState [testPhrase]
             (demoLedger0\<lparr>offlineAt := [0],
                funded := [(testAddress, 2 * 10 ^ 18), (address (demoAccount 1), 10 ^ 18)]\<rparr>)))))"
proof -
  let ?w = "demoLedger0\<lparr>offlineAt := [0],
                funded := [(testAddress, 2 * 10 ^ 18), (address (demoAccount 1), 10 ^ 18)]\<rparr>"
  let ?s = "demoState [testPhrase] ?w"
  let ?ps = "enumeration (heap ?s ! seedPhrases demoWallet) 2"
  have e: "?ps = [(testPhrase, 0), (testPhrase, 1)]"
    by (simp add: enumeration_def demoState_def demoWallet_def upt_conv_Cons)
  have j: "0 < length ?ps"
    unfolding e by simp
  have pj: "?ps ! 0 = (testPhrase, 0)"
    unfolding e by simp
  have derived: "mnemonicToAccount demoRuntime testPhrase 0 = Inr (demoAccount 0)"
    by (simp add: demoRuntime_def)
  have fails: "fst (getBalance demoRuntime (address (demoAccount 0))
                 (world (turnStates demoRuntime ?ps ?s ! 0))) = Inl NetworkError"
    unfolding e by (simp add: demo_defs)
  note t = scan_skips_failed_query [OF refl refl j pj derived fails]
  have "fst (listWalletsWithBalance demoRuntime demoWallet (Some 2) ?s) =
     Inr [\<lparr>info_address = ''0x0000000000000000000000000000000000000011'',
           info_balance = ''1000000000000000000'', info_balanceEth = ''1'',
           info_index = 1, info_seedPhrase = ''test test test...''\<rparr>]"
    by (simp add: scan_defs prog_defs demo_defs)
  with t show ?thesis by blast
qed

subsection \<open>Errors other than a failed balance query\<close>





section \<open>Derivation\<close>

text \<open>
  The derivation itself is the library's \<open>mnemonicToAccount\<close>, here a parameter. What
  the class adds to it is this: \<open>getAccountFromSeed\<close> passes its result on,
  \<open>getWalletAddress\<close> returns the address of the account and \<open>getPrivateKey\<close> the
  hexadecimal digits of its key, and none of them reads or changes the state.
\<close>

lemma derivation_methods_frame:
  "getAccountFromSeed R seedPhrase i s = (mnemonicToAccount R seedPhrase i, s) \<and>
   getWalletAddress R this seedPhrase (Some i) s =
     (case mnemonicToAccount R seedPhrase i of
        Inl e \<Rightarrow> Inl e | Inr account \<Rightarrow> Inr (address account), s) \<and>
   getPrivateKey R this seedPhrase (Some i) s =
     (case mnemonicToAccount R seedPhrase i of
        Inl e \<Rightarrow> Inl e
      | Inr account \<Rightarrow>
          (case hdPrivateKey account of
             None \<Rightarrow> Inl KeyUnavailable
           | Some privateKeyBuffer \<Rightarrow> Inr (''0x'' @ toHex privateKeyBuffer)), s) \<and>
   getWalletAddress R this seedPhrase None = getWalletAddress R this seedPhrase (Some 0) \<and>
   getPrivateKey R this seedPhrase None = getPrivateKey R this seedPhrase (Some 0)"
  by (auto simp: getWalletAddress_def getPrivateKey_def prog_defs Let_def
      split: sum.splits option.splits)

section \<open>getSeedPhrases\<close>

text \<open>
  C10. \<open>getSeedPhrases\<close> returns a reference \<open>r\<close> to an array that did not exist
  before, with the elements of the wallet's array, and changes nothing else. A change
  \<open>f\<close> made through \<open>r\<close> is a change of that array only: the wallet's array still
  holds the configured phrases, a scan made afterwards returns what it returns
  without the change, and the next \<open>getSeedPhrases\<close> returns the configured phrases
  again. (\<open>transfer\<close> and the derivation methods take their phrase as an argument;
  their callers pick it from what \<open>getSeedPhrases\<close> returns.)
\<close>

theorem getSeedPhrases_fresh_copy:
  assumes valid: "seedPhrases this < length (heap s)"
    and got: "getSeedPhrases this s = (res, s1)"
  shows "\<exists>r. res = Inr r \<and> r = length (heap s) \<and> r \<noteq> seedPhrases this \<and>
      heap s1 ! r = heap s ! seedPhrases this \<and>
      heap s1 ! seedPhrases this = heap s ! seedPhrases this \<and>
      world s1 = world s \<and> calls s1 = calls s \<and> console s1 = console s \<and>
      heap (mutateArray r f s1) ! r = f (heap s ! seedPhrases this) \<and>
      heap (mutateArray r f s1) ! seedPhrases this = heap s ! seedPhrases this \<and>
      fst (listWalletsWithBalance R this maxIndexArg (mutateArray r f s1)) =
        fst (listWalletsWithBalance R this maxIndexArg s) \<and>
      heap (snd (getSeedPhrases this (mutateArray r f s1))) ! Suc r = heap s ! seedPhrases this"
proof -
  let ?r = "length (heap s)"
  let ?h = "(heap s @ [heap s ! seedPhrases this])[?r := f (heap s ! seedPhrases this)]"
  have s1: "s1 = s\<lparr>heap := heap s @ [heap s ! seedPhrases this]\<rparr>" and res: "res = Inr ?r"
    using got by (auto simp: getSeedPhrases_def)
  have m: "mutateArray ?r f s1 = s\<lparr>heap := ?h\<rparr>"
    by (simp add: mutateArray_def s1 nth_append)
  have hk: "?h ! seedPhrases this = heap s ! seedPhrases this"
    using valid by (simp add: nth_append)
  have scan: "fst (listWalletsWithBalance R this maxIndexArg (mutateArray ?r f s1)) =
        fst (listWalletsWithBalance R this maxIndexArg s)"
    unfolding m using listWalletsWithBalance_heap_update [OF hk, of R maxIndexArg]
    by (simp split: prod.splits)
  have again: "heap (snd (getSeedPhrases this (mutateArray ?r f s1))) ! Suc ?r = heap s ! seedPhrases this"
    unfolding m using valid by (simp add: getSeedPhrases_def nth_append)
  show ?thesis
    using valid res scan again
    by (intro exI [of _ ?r]) (simp add: s1 mutateArray_def nth_append)
qed

theorem getSeedPhrases_fresh_copy_witness:
  "getSeedPhrases demoWallet (demoState [testPhrase] demoLedger0) =
     (Inr 1, (demoState [testPhrase] demoLedger0)\<lparr>heap := [[testPhrase], [testPhrase]]\<rparr>) \<and>
   heap (mutateArray 1 (\<lambda>xs. [])
          ((demoState [testPhrase] demoLedger0)\<lparr>heap := [[testPhrase], [testPhrase]]\<rparr>))
     = [[testPhrase], []] \<and>
   fst (listWalletsWithBalance demoRuntime demoWallet (Some 1)
          (mutateArray 1 (\<lambda>xs. [])
             ((demoState [testPhrase] demoLedger0)\<lparr>heap := [[testPhrase], [testPhrase]]\<rparr>))) =
   fst (listWalletsWithBalance demoRuntime demoWallet (Some 1) (demoState [testPhrase] demoLedger0))"
proof -
  let ?s = "demoState [testPhrase] demoLedger0"
  let ?s1 = "?s\<lparr>heap := [[testPhrase], [testPhrase]]\<rparr>"
  have valid: "seedPhrases demoWallet < length (heap ?s)"
    by (simp add: demoWallet_def demoState_def)
  have got: "getSeedPhrases demoWallet ?s = (Inr 1, ?s1)"
    by (simp add: getSeedPhrases_def demoWallet_def demoState_def)
  have mut: "heap (mutateArray 1 (\<lambda>xs. []) ?s1) = [[testPhrase], []]"
    by (simp add: mutateArray_def)
  from getSeedPhrases_fresh_copy [OF valid got, of "\<lambda>xs. []" demoRuntime "Some 1"]
  have "fst (listWalletsWithBalance demoRuntime demoWallet (Some 1) (mutateArray 1 (\<lambda>xs. []) ?s1)) =
        fst (listWalletsWithBalance demoRuntime demoWallet (Some 1) ?s)"
    by (simp add: demoState_def)
  with got mut show ?thesis by blast
qed

end
